theory Spec2Isabelle
  imports Complex_Main "HOL-Library.Char_ord" "HOL-Library.List_Lexorder"
begin

section \<open>Python values used by the analysis pipeline\<close>

text \<open>
  The repository is a Python package (config.py, git_analyzer.py, repo_analyzer.py,
  feature_mapper.py, developer_analyzer.py, risk_assessor.py). Its dataclasses become
  records, its dictionaries become association lists in insertion order or maps, every
  raise becomes a value \<open>Inl e\<close> of a sum type, and the loops become recursive functions.

  Python's \<open>int\<close> is \<^typ>\<open>int\<close>, lengths are \<^typ>\<open>nat\<close>. A Python \<open>float\<close> is
  represented by the rational number it denotes: literals such as \<open>0.3\<close> are the
  decimal fractions, and arithmetic on floats is exact rational arithmetic, so the
  rounding error of IEEE doubles is not part of the model.
\<close>

type_synonym pyfloat = rat

datatype py_error = KeyError | TypeError

text \<open>
  Strings are lists of 8-bit characters. \<open>str.lower()\<close> maps the ASCII capitals to
  their small letters and keeps every other character.
\<close>

definition lower_char :: "char \<Rightarrow> char" where
  "lower_char c =
     (if CHR ''A'' \<le> c \<and> c \<le> CHR ''Z'' then char_of (of_char c + (32::nat)) else c)"

definition lower :: "string \<Rightarrow> string" where
  "lower s = map lower_char s"

text \<open>\<open>s.startswith(p)\<close> and the substring test \<open>p in s\<close>.\<close>

fun startswith :: "string \<Rightarrow> string \<Rightarrow> bool" where
  "startswith s [] = True"
| "startswith [] (p # ps) = False"
| "startswith (c # cs) (p # ps) = (c = p \<and> startswith cs ps)"

fun str_in :: "string \<Rightarrow> string \<Rightarrow> bool" where
  "str_in p [] = (p = [])"
| "str_in p (c # cs) = (startswith (c # cs) p \<or> str_in p cs)"

text \<open>\<open>any(pattern in message for pattern in patterns)\<close>.\<close>

fun any_in :: "string list \<Rightarrow> string \<Rightarrow> bool" where
  "any_in [] message = False"
| "any_in (pattern # patterns) message = (str_in pattern message \<or> any_in patterns message)"

text \<open>
  \<open>round(x, 1)\<close>: the nearest multiple of one tenth, a tie going to the even
  multiple.
\<close>

definition round_half_even :: "rat \<Rightarrow> int" where
  "round_half_even y =
     (let f = \<lfloor>y\<rfloor>; d = y - of_int f
      in if d < 1 / 2 then f
         else if 1 / 2 < d then f + 1
         else if even f then f else f + 1)"

definition py_round1 :: "pyfloat \<Rightarrow> pyfloat" where
  "py_round1 x = of_int (round_half_even (x * 10)) / 10"

text \<open>
  \<open>sorted(xs, key=f, reverse=True)\<close>: descending by key, entries with equal keys in
  their original order.
\<close>

definition sorted_reverse :: "('a \<Rightarrow> 'k::linorder) \<Rightarrow> 'a list \<Rightarrow> 'a list" where
  "sorted_reverse f xs = rev (sort_key f (rev xs))"

section \<open>config.py\<close>

record ComplexityThresholds =
  LOW_COMPLEXITY_LOC :: int
  MEDIUM_COMPLEXITY_LOC :: int
  LOW_COMPLEXITY_COMMITS :: int
  MEDIUM_COMPLEXITY_COMMITS :: int
  LOW_COMPLEXITY_MULTIPLIER :: pyfloat
  MEDIUM_COMPLEXITY_MULTIPLIER :: pyfloat
  HIGH_COMPLEXITY_MULTIPLIER :: pyfloat
  TESTING_BUFFER :: pyfloat
  DOCUMENTATION_BUFFER :: pyfloat
  TOTAL_BUFFER :: pyfloat

record GitAnalysisConfig =
  FEATURE_PATTERNS :: "string list"
  BUG_FIX_PATTERNS :: "string list"
  REFACTOR_PATTERNS :: "string list"
  DOCUMENTATION_PATTERNS :: "string list"
  MAX_COMMIT_HISTORY :: int
  MIN_COMMIT_LENGTH :: int
  IGNORE_MERGE_COMMITS :: bool

text \<open>
  The configuration object holds the thresholds in its attribute \<open>complexity\<close> and the
  pattern tables in \<open>git\<close>; its attributes \<open>tech_stack\<close> and \<open>report\<close> are read by none of
  the functions below.
\<close>

record AnalysisConfig =
  complexity_cfg :: ComplexityThresholds
  git_cfg :: GitAnalysisConfig

text \<open>The dataclass defaults; \<open>AnalysisConfig.__init__\<close> builds them, and
  \<open>_load_config\<close> changes nothing.\<close>

definition ComplexityThresholds_default :: ComplexityThresholds where
  "ComplexityThresholds_default =
     \<lparr>LOW_COMPLEXITY_LOC = 100, MEDIUM_COMPLEXITY_LOC = 500,
      LOW_COMPLEXITY_COMMITS = 3, MEDIUM_COMPLEXITY_COMMITS = 8,
      LOW_COMPLEXITY_MULTIPLIER = 3 / 2, MEDIUM_COMPLEXITY_MULTIPLIER = 3,
      HIGH_COMPLEXITY_MULTIPLIER = 6,
      TESTING_BUFFER = 15 / 100, DOCUMENTATION_BUFFER = 5 / 100, TOTAL_BUFFER = 20 / 100\<rparr>"

definition GitAnalysisConfig_default :: GitAnalysisConfig where
  "GitAnalysisConfig_default =
     \<lparr>FEATURE_PATTERNS =
        [''feat:'', ''feature:'', ''add:'', ''implement:'', ''new:'', ''create:'', ''build:''],
      BUG_FIX_PATTERNS =
        [''fix:'', ''bugfix:'', ''bug:'', ''resolve:'', ''patch:'', ''correct:''],
      REFACTOR_PATTERNS =
        [''refactor:'', ''refactor:'', ''cleanup:'', ''restructure:'', ''optimize:''],
      DOCUMENTATION_PATTERNS =
        [''docs:'', ''documentation:'', ''readme:'', ''comment:'', ''update docs:''],
      MAX_COMMIT_HISTORY = 10000, MIN_COMMIT_LENGTH = 10, IGNORE_MERGE_COMMITS = True\<rparr>"

definition AnalysisConfig_init :: AnalysisConfig where
  "AnalysisConfig_init =
     \<lparr>complexity_cfg = ComplexityThresholds_default, git_cfg = GitAnalysisConfig_default\<rparr>"

definition get_complexity_level :: "AnalysisConfig \<Rightarrow> int \<Rightarrow> int \<Rightarrow> string" where
  "get_complexity_level cfg loc commit_count =
     (if loc \<le> LOW_COMPLEXITY_LOC (complexity_cfg cfg)
         \<and> commit_count \<le> LOW_COMPLEXITY_COMMITS (complexity_cfg cfg) then ''low''
      else if loc \<le> MEDIUM_COMPLEXITY_LOC (complexity_cfg cfg)
         \<and> commit_count \<le> MEDIUM_COMPLEXITY_COMMITS (complexity_cfg cfg) then ''medium''
      else ''high'')"

text \<open>\<open>multipliers.get(complexity, 3.0)\<close> is the table with its default.\<close>

definition multipliers_get :: "AnalysisConfig \<Rightarrow> string \<Rightarrow> pyfloat" where
  "multipliers_get cfg complexity =
     (case map_of [(''low'', LOW_COMPLEXITY_MULTIPLIER (complexity_cfg cfg)),
                   (''medium'', MEDIUM_COMPLEXITY_MULTIPLIER (complexity_cfg cfg)),
                   (''high'', HIGH_COMPLEXITY_MULTIPLIER (complexity_cfg cfg))] complexity of
        Some m \<Rightarrow> m
      | None \<Rightarrow> 3)"

definition get_time_estimate :: "AnalysisConfig \<Rightarrow> string \<Rightarrow> int \<Rightarrow> pyfloat" where
  "get_time_estimate cfg complexity commit_count =
     (let base_hours = multipliers_get cfg complexity * of_int commit_count;
          total_hours = base_hours * (1 + TOTAL_BUFFER (complexity_cfg cfg))
      in py_round1 total_hours)"

section \<open>git_analyzer.py: commits\<close>

text \<open>
  A commit carries a \<open>datetime\<close>. The date arithmetic and formatting belong to Python's
  standard library, so the type of dates is a parameter \<open>'d\<close> of the model.
\<close>

record 'd CommitInfo =
  hash :: string
  author :: string
  author_email :: string
  date :: 'd
  message :: string
  files_changed :: int
  lines_added :: int
  lines_deleted :: int
  is_merge :: bool
  branch :: string

section \<open>feature_mapper.py\<close>

record 'd Feature =
  name :: string
  description :: string
  complexity :: string
  status :: string
  estimated_hours :: pyfloat
  actual_hours :: "pyfloat option"
  commit_count :: int
  lines_of_code :: int
  business_value :: string
  priority :: string
  risk_level :: string
  confidence :: pyfloat
  start_date :: "'d option"
  end_date :: "'d option"
  dependencies :: "string list"
  tags :: "string list"

record 'd FeatureGroup =
  fg_name :: string
  fg_features :: "'d Feature list"
  total_hours :: pyfloat
  average_complexity :: string
  business_impact :: string

text \<open>
  The per-feature dictionary built by the extraction passes, with the keys they set.
  No pass sets the key \<open>'dependencies'\<close> that \<open>_determine_risk_level\<close> reads with a
  default, so that key is optional here.
\<close>

record 'd feature_data =
  fd_commits :: "'d CommitInfo list"
  fd_lines_changed :: int
  fd_start_date :: "'d option"
  fd_end_date :: "'d option"
  fd_tags :: "string list"
  fd_dependencies :: "string list option"

definition assess_complexity :: "AnalysisConfig \<Rightarrow> 'd Feature \<Rightarrow> string" where
  "assess_complexity cfg feature =
     (let complexity0 = get_complexity_level cfg (lines_of_code feature) (commit_count feature);
          complexity1 =
            (if dependencies feature \<noteq> [] \<and> 3 < length (dependencies feature) then
               (if complexity0 = ''low'' then ''medium''
                else if complexity0 = ''medium'' then ''high''
                else complexity0)
             else complexity0);
          complexity2 =
            (if risk_level feature = ''high'' then
               (if complexity1 = ''low'' then ''medium''
                else if complexity1 = ''medium'' then ''high''
                else complexity1)
             else complexity1)
      in complexity2)"

definition estimate_development_time :: "AnalysisConfig \<Rightarrow> 'd Feature \<Rightarrow> pyfloat" where
  "estimate_development_time cfg feature =
     (let base_hours = get_time_estimate cfg (complexity feature) (commit_count feature);
          adjustments0 = (1::pyfloat);
          adjustments1 =
            (if business_value feature = ''Critical'' then adjustments0 * (12 / 10)
             else if business_value feature = ''Minimal'' then adjustments0 * (8 / 10)
             else adjustments0);
          adjustments2 =
            (if risk_level feature = ''High'' then adjustments1 * (13 / 10)
             else if risk_level feature = ''Low'' then adjustments1 * (9 / 10)
             else adjustments1);
          adjustments3 =
            (if dependencies feature \<noteq> [] then
               adjustments2 * (1 + of_nat (length (dependencies feature)) * (1 / 10))
             else adjustments2)
      in py_round1 (base_hours * adjustments3))"

subsection \<open>Building a feature from its extracted data\<close>

definition determine_feature_status :: "'d feature_data \<Rightarrow> string" where
  "determine_feature_status fd =
     (if fd_end_date fd \<noteq> None then ''completed''
      else if fd_start_date fd \<noteq> None then ''in_progress''
      else ''planned'')"

definition determine_business_value :: "string \<Rightarrow> 'd feature_data \<Rightarrow> string" where
  "determine_business_value feature_name fd =
     (let name_lower = lower feature_name
      in if any_in [''auth'', ''payment'', ''user'', ''core'', ''main'', ''critical''] name_lower
         then ''High''
         else if any_in [''api'', ''service'', ''component'', ''feature''] name_lower
         then ''Medium''
         else ''Medium'')"

definition determine_priority :: "string \<Rightarrow> 'd feature_data \<Rightarrow> string" where
  "determine_priority feature_name fd =
     (let bv = determine_business_value feature_name fd
      in if bv = ''High'' then ''High'' else if bv = ''Medium'' then ''Medium'' else ''Low'')"

definition get_dependencies :: "'d feature_data \<Rightarrow> string list" where
  "get_dependencies fd = (case fd_dependencies fd of None \<Rightarrow> [] | Some ds \<Rightarrow> ds)"

definition determine_risk_level :: "'d feature_data \<Rightarrow> string" where
  "determine_risk_level fd =
     (if 1000 < fd_lines_changed fd then ''High''
      else if 5 < length (get_dependencies fd) then ''High''
      else if 500 < fd_lines_changed fd then ''Medium''
      else if 2 < length (get_dependencies fd) then ''Medium''
      else ''Low'')"

definition calculate_feature_confidence :: "'d feature_data \<Rightarrow> pyfloat" where
  "calculate_feature_confidence fd =
     (let c0 = (5 / 10 :: pyfloat);
          c1 = (if fd_commits fd \<noteq> [] then c0 + 2 / 10 else c0);
          c2 = (if fd_start_date fd \<noteq> None \<and> fd_end_date fd \<noteq> None then c1 + 1 / 10 else c1);
          c3 = (if 0 < fd_lines_changed fd then c2 + 1 / 10 else c2);
          c4 = (if fd_tags fd \<noteq> [] then c3 + 1 / 10 else c3)
      in min c4 1)"

text \<open>\<open>str(n)\<close> for an integer, and \<open>" ".join(parts)\<close>.\<close>

fun str_nat :: "nat \<Rightarrow> string" where
  "str_nat n =
     (if n < 10 then [char_of (48 + n)]
      else str_nat (n div 10) @ [char_of (48 + n mod 10)])"

definition str_int :: "int \<Rightarrow> string" where
  "str_int i = (if i < 0 then CHR ''-'' # str_nat (nat (- i)) else str_nat (nat i))"

fun join_space :: "string list \<Rightarrow> string" where
  "join_space [] = []"
| "join_space [p] = p"
| "join_space (p # q # ps) = p @ '' '' @ join_space (q # ps)"

definition generate_feature_description :: "string \<Rightarrow> 'd feature_data \<Rightarrow> string" where
  "generate_feature_description feature_name fd =
     (let parts0 =
            (if fd_tags fd \<noteq> [] then
               (if ''feature'' \<in> set (fd_tags fd) then [''Feature implementation'']
                else if ''bugfix'' \<in> set (fd_tags fd) then [''Bug fix'']
                else if ''refactor'' \<in> set (fd_tags fd) then [''Code refactoring'']
                else [''Development work''])
             else [''Development work'']);
          parts1 =
            (if 0 < fd_lines_changed fd
             then parts0 @ [''affecting '' @ str_int (fd_lines_changed fd) @ '' lines of code'']
             else parts0);
          parts2 =
            (if fd_commits fd \<noteq> []
             then parts1 @ [''with '' @ str_nat (length (fd_commits fd)) @ '' commits'']
             else parts1)
      in join_space parts2)"

definition extract_dependencies :: "'d feature_data \<Rightarrow> string list" where
  "extract_dependencies fd =
     (if ''api'' \<in> set (fd_tags fd) then [''Backend API''] else [])
     @ (if ''database'' \<in> set (fd_tags fd) then [''Database''] else [])
     @ (if ''ui'' \<in> set (fd_tags fd) then [''UI Components''] else [])"

text \<open>
  \<open>_create_feature_object\<close> builds the feature with the placeholder complexity
  \<open>'medium'\<close> and \<open>0.0\<close> hours, then overwrites both fields. Its \<open>try\<close> block returns
  \<open>None\<close> on an exception; no operation on the dictionary above raises one.
\<close>

definition create_feature_object ::
  "AnalysisConfig \<Rightarrow> string \<Rightarrow> 'd feature_data \<Rightarrow> 'd CommitInfo list \<Rightarrow> 'd Feature option" where
  "create_feature_object cfg feature_name fd commits =
     (let feature0 =
            \<lparr>name = feature_name,
             description = generate_feature_description feature_name fd,
             complexity = ''medium'',
             status = determine_feature_status fd,
             estimated_hours = 0,
             actual_hours = None,
             commit_count = int (length (fd_commits fd)),
             lines_of_code = fd_lines_changed fd,
             business_value = determine_business_value feature_name fd,
             priority = determine_priority feature_name fd,
             risk_level = determine_risk_level fd,
             confidence = calculate_feature_confidence fd,
             start_date = fd_start_date fd,
             end_date = fd_end_date fd,
             dependencies = extract_dependencies fd,
             tags = fd_tags fd\<rparr>;
          feature1 = feature0\<lparr>complexity := assess_complexity cfg feature0\<rparr>;
          feature2 = feature1\<lparr>estimated_hours := estimate_development_time cfg feature1\<rparr>
      in Some feature2)"

text \<open>
  \<open>identify_features\<close>: the dictionary \<open>all_features\<close> comes from the regular-expression
  passes over commit messages and directory names and their merge; \<open>extract\<close> stands for
  these passes, its result listed in the dictionary's insertion order.
\<close>

definition identify_features ::
  "AnalysisConfig \<Rightarrow> ('d CommitInfo list \<Rightarrow> 'r \<Rightarrow> (string \<times> 'd feature_data) list)
     \<Rightarrow> 'd CommitInfo list \<Rightarrow> 'r \<Rightarrow> 'd Feature list" where
  "identify_features cfg extract commits repo_structure =
     (let all_features = extract commits repo_structure;
          features =
            List.map_filter (\<lambda>(feature_name, fd). create_feature_object cfg feature_name fd commits)
              all_features
      in sorted_reverse estimated_hours features)"

text \<open>
  The order of risk levels that the monotonicity property refers to:
  \<open>Low < Medium < High\<close>, the three values \<open>_determine_risk_level\<close> returns.
\<close>

definition risk_level_rank :: "string \<rightharpoonup> nat" where
  "risk_level_rank = map_of [(''Low'', 1), (''Medium'', 2), (''High'', 3)]"

subsection \<open>Grouping features\<close>

definition determine_feature_group :: "'d Feature \<Rightarrow> string" where
  "determine_feature_group feature =
     (let name_lower = lower (name feature)
      in if any_in [''ui'', ''component'', ''page'', ''screen'', ''view''] name_lower
         then ''User Interface''
         else if any_in [''api'', ''service'', ''controller'', ''model''] name_lower
         then ''Backend Services''
         else if any_in [''config'', ''setup'', ''deploy'', ''docker''] name_lower
         then ''Infrastructure''
         else if any_in [''database'', ''data'', ''storage'', ''cache''] name_lower
         then ''Data Management''
         else ''Core Features'')"

text \<open>\<open>groups[group_name].append(feature)\<close> on a \<open>defaultdict(list)\<close>, the dictionary kept
  in insertion order.\<close>

fun groups_append :: "(string \<times> 'a list) list \<Rightarrow> string \<Rightarrow> 'a \<Rightarrow> (string \<times> 'a list) list" where
  "groups_append [] k v = [(k, [v])]"
| "groups_append ((k', vs) # rest) k v =
     (if k' = k then (k', vs @ [v]) # rest else (k', vs) # groups_append rest k v)"

fun build_groups ::
  "(string \<times> 'd Feature list) list \<Rightarrow> 'd Feature list \<Rightarrow> (string \<times> 'd Feature list) list" where
  "build_groups groups [] = groups"
| "build_groups groups (feature # features) =
     build_groups (groups_append groups (determine_feature_group feature) feature) features"

definition complexity_scores :: "string \<rightharpoonup> int" where
  "complexity_scores = map_of [(''low'', 1), (''medium'', 2), (''high'', 3)]"

text \<open>\<open>sum(complexity_scores[f.complexity] for f in group_features)\<close>: the subscript
  raises \<open>KeyError\<close> at the first feature whose complexity is not in the table.\<close>

fun sum_complexity_scores :: "'d Feature list \<Rightarrow> py_error + int" where
  "sum_complexity_scores [] = Inr 0"
| "sum_complexity_scores (f # fs) =
     (case complexity_scores (complexity f) of
        None \<Rightarrow> Inl KeyError
      | Some s \<Rightarrow> (case sum_complexity_scores fs of Inl e \<Rightarrow> Inl e | Inr t \<Rightarrow> Inr (s + t)))"

definition impact_scores_get :: "string \<Rightarrow> int" where
  "impact_scores_get bv =
     (case map_of [(''Critical'', 5), (''High'', 4), (''Medium'', 3), (''Low'', 2),
                   (''Minimal'', 1 :: int)] bv of
        Some s \<Rightarrow> s
      | None \<Rightarrow> 3)"

definition determine_group_business_impact :: "'d Feature list \<Rightarrow> string" where
  "determine_group_business_impact features =
     (if features = [] then ''Low''
      else
        (let total_score = sum_list (map (\<lambda>f. impact_scores_get (business_value f)) features);
             average_score = (of_int total_score :: pyfloat) / of_nat (length features)
         in if 45 / 10 \<le> average_score then ''Critical''
            else if 35 / 10 \<le> average_score then ''High''
            else if 25 / 10 \<le> average_score then ''Medium''
            else if 15 / 10 \<le> average_score then ''Low''
            else ''Minimal''))"

definition make_group :: "string \<times> 'd Feature list \<Rightarrow> py_error + 'd FeatureGroup" where
  "make_group g =
     (case g of (group_name, group_features) \<Rightarrow>
        (let total = sum_list (map estimated_hours group_features)
         in case sum_complexity_scores group_features of
              Inl e \<Rightarrow> Inl e
            | Inr score_sum \<Rightarrow>
                (let avg_complexity_score =
                       (of_int score_sum :: pyfloat) / of_nat (length group_features);
                     avg_complexity =
                       (if avg_complexity_score \<le> 15 / 10 then ''low''
                        else if avg_complexity_score \<le> 25 / 10 then ''medium''
                        else ''high'')
                 in Inr \<lparr>fg_name = group_name, fg_features = group_features,
                         total_hours = total, average_complexity = avg_complexity,
                         business_impact = determine_group_business_impact group_features\<rparr>)))"

fun make_groups :: "(string \<times> 'd Feature list) list \<Rightarrow> py_error + 'd FeatureGroup list" where
  "make_groups [] = Inr []"
| "make_groups (g # gs) =
     (case make_group g of
        Inl e \<Rightarrow> Inl e
      | Inr fg \<Rightarrow> (case make_groups gs of Inl e \<Rightarrow> Inl e | Inr fgs \<Rightarrow> Inr (fg # fgs)))"

definition group_features :: "'d Feature list \<Rightarrow> py_error + 'd FeatureGroup list" where
  "group_features features =
     (case make_groups (build_groups [] features) of
        Inl e \<Rightarrow> Inl e
      | Inr feature_groups \<Rightarrow> Inr (sorted_reverse total_hours feature_groups))"

section \<open>git_analyzer.py: commit patterns\<close>

record CommitPattern =
  total_commits :: nat
  feature_commits :: nat
  bug_fix_commits :: nat
  refactor_commits :: nat
  documentation_commits :: nat
  merge_commits :: nat
  average_commits_per_day :: pyfloat
  commit_frequency_trend :: string
  most_active_days :: "string list"
  commit_message_quality :: pyfloat

text \<open>
  What \<open>_analyze_commit_patterns\<close> takes from Python's \<open>datetime\<close> and \<open>re\<close>:
  \<open>week_key d\<close> is \<open>(d - timedelta(days=d.weekday())).strftime('%Y-%W')\<close>, the key of the
  week of \<open>d\<close>. The average per day, the most active weekdays and the message quality
  are computed with date differences, weekday names and a regular expression; no
  property below speaks about them, and they enter as functions of the commit list.
\<close>

record 'd pattern_helpers =
  week_key :: "'d \<Rightarrow> string"
  commits_per_day :: "'d CommitInfo list \<Rightarrow> pyfloat"
  find_most_active_days :: "'d CommitInfo list \<Rightarrow> string list"
  assess_commit_message_quality :: "'d CommitInfo list \<Rightarrow> pyfloat"

text \<open>The five counters of the classification loop, and one pass of its body.\<close>

record type_counts =
  n_feature :: nat
  n_bug_fix :: nat
  n_refactor :: nat
  n_documentation :: nat
  n_merge :: nat

definition count_commit :: "GitAnalysisConfig \<Rightarrow> 'd CommitInfo \<Rightarrow> type_counts \<Rightarrow> type_counts" where
  "count_commit g commit c =
     (let message_lower = lower (message commit);
          c1 =
            (if any_in (FEATURE_PATTERNS g) message_lower then c\<lparr>n_feature := n_feature c + 1\<rparr>
             else if any_in (BUG_FIX_PATTERNS g) message_lower
             then c\<lparr>n_bug_fix := n_bug_fix c + 1\<rparr>
             else if any_in (REFACTOR_PATTERNS g) message_lower
             then c\<lparr>n_refactor := n_refactor c + 1\<rparr>
             else if any_in (DOCUMENTATION_PATTERNS g) message_lower
             then c\<lparr>n_documentation := n_documentation c + 1\<rparr>
             else c)
      in if is_merge commit then c1\<lparr>n_merge := n_merge c1 + 1\<rparr> else c1)"

fun count_commits :: "GitAnalysisConfig \<Rightarrow> 'd CommitInfo list \<Rightarrow> type_counts \<Rightarrow> type_counts" where
  "count_commits g [] c = c"
| "count_commits g (commit # commits) c = count_commits g commits (count_commit g commit c)"

text \<open>\<open>weekly_commits[week_key] += 1\<close> on a \<open>defaultdict(int)\<close>, kept in insertion order,
  and the read \<open>weekly_commits[week]\<close>.\<close>

fun increment :: "(string \<times> nat) list \<Rightarrow> string \<Rightarrow> (string \<times> nat) list" where
  "increment [] k = [(k, 1)]"
| "increment ((k', n) # rest) k =
     (if k' = k then (k', n + 1) # rest else (k', n) # increment rest k)"

fun count_weeks :: "(string \<times> nat) list \<Rightarrow> string list \<Rightarrow> (string \<times> nat) list" where
  "count_weeks weekly [] = weekly"
| "count_weeks weekly (k # ks) = count_weeks (increment weekly k) ks"

definition weekly_get :: "(string \<times> nat) list \<Rightarrow> string \<Rightarrow> nat" where
  "weekly_get weekly k = (case map_of weekly k of Some n \<Rightarrow> n | None \<Rightarrow> 0)"

text \<open>The slice \<open>xs[k:]\<close>; a negative \<open>k\<close> counts from the end.\<close>

definition slice_from :: "'a list \<Rightarrow> int \<Rightarrow> 'a list" where
  "slice_from xs k =
     (if k < 0 then drop (nat (max (int (length xs) + k) 0)) xs else drop (nat k) xs)"

text \<open>
  In \<open>weeks[-len(weeks)//3:]\<close> the minus sign binds first: the start index is
  \<open>(-len(weeks)) // 3\<close>, floor division, as \<open>div\<close> on \<^typ>\<open>int\<close>.
\<close>

definition analyze_commit_frequency_trend ::
  "'d pattern_helpers \<Rightarrow> 'd CommitInfo list \<Rightarrow> string" where
  "analyze_commit_frequency_trend lib commits =
     (if length commits < 10 then ''insufficient_data''
      else
        (let weekly_commits = count_weeks [] (map (\<lambda>commit. week_key lib (date commit)) commits)
         in if length weekly_commits < 3 then ''insufficient_data''
            else
              (let weeks = sort (map fst weekly_commits);
                   early_avg =
                     sum_list (map (weekly_get weekly_commits) (take (length weeks div 3) weeks));
                   late_avg =
                     sum_list (map (weekly_get weekly_commits)
                       (slice_from weeks ((- int (length weeks)) div 3)))
               in if (of_nat early_avg :: pyfloat) * (12 / 10) < of_nat late_avg
                  then ''increasing''
                  else if (of_nat late_avg :: pyfloat) < of_nat early_avg * (8 / 10)
                  then ''decreasing''
                  else ''stable'')))"

definition analyze_commit_patterns ::
  "AnalysisConfig \<Rightarrow> 'd pattern_helpers \<Rightarrow> 'd CommitInfo list \<Rightarrow> CommitPattern" where
  "analyze_commit_patterns cfg lib commits =
     (if commits = [] then
        \<lparr>total_commits = 0, feature_commits = 0, bug_fix_commits = 0, refactor_commits = 0,
         documentation_commits = 0, merge_commits = 0, average_commits_per_day = 0,
         commit_frequency_trend = ''unknown'', most_active_days = [],
         commit_message_quality = 0\<rparr>
      else
        (let c = count_commits (git_cfg cfg) commits
                   \<lparr>n_feature = 0, n_bug_fix = 0, n_refactor = 0, n_documentation = 0,
                    n_merge = 0\<rparr>
         in \<lparr>total_commits = length commits,
             feature_commits = n_feature c,
             bug_fix_commits = n_bug_fix c,
             refactor_commits = n_refactor c,
             documentation_commits = n_documentation c,
             merge_commits = n_merge c,
             average_commits_per_day = commits_per_day lib commits,
             commit_frequency_trend = analyze_commit_frequency_trend lib commits,
             most_active_days = find_most_active_days lib commits,
             commit_message_quality = assess_commit_message_quality lib commits\<rparr>))"

text \<open>
  The classification as the specification words it: the lower-cased message is tested
  against the feature table first, then the bug-fix, refactoring and documentation
  tables, and the first table that matches names the category; a message that matches
  none is unclassified.
\<close>

datatype commit_category = FeatureCommit | BugFixCommit | RefactorCommit | DocumentationCommit
  | Unclassified

definition first_match :: "GitAnalysisConfig \<Rightarrow> 'd CommitInfo \<Rightarrow> commit_category" where
  "first_match g commit =
     (if any_in (FEATURE_PATTERNS g) (lower (message commit)) then FeatureCommit
      else if any_in (BUG_FIX_PATTERNS g) (lower (message commit)) then BugFixCommit
      else if any_in (REFACTOR_PATTERNS g) (lower (message commit)) then RefactorCommit
      else if any_in (DOCUMENTATION_PATTERNS g) (lower (message commit)) then DocumentationCommit
      else Unclassified)"

definition count_category :: "GitAnalysisConfig \<Rightarrow> commit_category \<Rightarrow> 'd CommitInfo list \<Rightarrow> nat" where
  "count_category g cat commits = length (filter (\<lambda>commit. first_match g commit = cat) commits)"

section \<open>repo_analyzer.py: the technology stack\<close>

record TechnologyInfo =
  tech_name :: string
  tech_category :: string
  tech_confidence :: pyfloat
  evidence :: "string list"
  version :: "string option"

text \<open>
  \<open>_deduplicate_technologies\<close> keeps a dictionary from \<open>(name, category)\<close> to the entry
  stored under that key, in insertion order. An entry whose key is present is merged
  into the stored one, which keeps its place. The entries of \<open>tech_list\<close> are separate
  objects with evidence lists of their own (each pass builds them afresh), so the
  in-place \<open>extend\<close> is the update of the stored value.
\<close>

definition tech_key :: "TechnologyInfo \<Rightarrow> string \<times> string" where
  "tech_key tech = (tech_name tech, tech_category tech)"

fun dict_merge ::
  "((string \<times> string) \<times> TechnologyInfo) list \<Rightarrow> TechnologyInfo
     \<Rightarrow> ((string \<times> string) \<times> TechnologyInfo) list" where
  "dict_merge [] tech = [(tech_key tech, tech)]"
| "dict_merge ((key, existing) # rest) tech =
     (if key = tech_key tech
      then (key, existing\<lparr>evidence := evidence existing @ evidence tech,
                          tech_confidence := max (tech_confidence existing) (tech_confidence tech)\<rparr>)
             # rest
      else (key, existing) # dict_merge rest tech)"

fun dedup_loop ::
  "((string \<times> string) \<times> TechnologyInfo) list \<Rightarrow> TechnologyInfo list
     \<Rightarrow> ((string \<times> string) \<times> TechnologyInfo) list" where
  "dedup_loop tech_dict [] = tech_dict"
| "dedup_loop tech_dict (tech # tech_list) = dedup_loop (dict_merge tech_dict tech) tech_list"

definition deduplicate_technologies :: "TechnologyInfo list \<Rightarrow> TechnologyInfo list" where
  "deduplicate_technologies tech_list = map snd (dedup_loop [] tech_list)"

text \<open>
  \<open>_identify_technology_stack\<close>: the three passes read the repository's files; their
  results \<open>config_tech\<close>, \<open>source_tech\<close> and \<open>build_tech\<close> are the inputs here.
\<close>

definition identify_technology_stack ::
  "TechnologyInfo list \<Rightarrow> TechnologyInfo list \<Rightarrow> TechnologyInfo list \<Rightarrow> TechnologyInfo list" where
  "identify_technology_stack config_tech source_tech build_tech =
     (let tech_stack = config_tech @ source_tech @ build_tech;
          unique_tech = deduplicate_technologies tech_stack
      in sorted_reverse tech_confidence unique_tech)"

text \<open>The inputs that share the key \<open>k\<close>, in their order in the list.\<close>

definition same_key :: "string \<times> string \<Rightarrow> TechnologyInfo list \<Rightarrow> TechnologyInfo list" where
  "same_key k tech_list = filter (\<lambda>tech. tech_key tech = k) tech_list"

text \<open>The stored entry after \<open>tech\<close> has been merged into it, and the invariant of the
  deduplication loop after the entries \<open>xs\<close>: one stored entry per key met, holding the
  evidence of the inputs with that key in their order and the largest of their
  confidences.\<close>

definition merged :: "TechnologyInfo \<Rightarrow> TechnologyInfo \<Rightarrow> TechnologyInfo" where
  "merged e t = e\<lparr>evidence := evidence e @ evidence t,
                  tech_confidence := max (tech_confidence e) (tech_confidence t)\<rparr>"

definition dedup_inv :: "((string \<times> string) \<times> TechnologyInfo) list \<Rightarrow> TechnologyInfo list \<Rightarrow> bool" where
  "dedup_inv d xs \<longleftrightarrow>
     distinct (map fst d) \<and> fst ` set d = tech_key ` set xs
     \<and> (\<forall>(k, e) \<in> set d.
           tech_key e = k
         \<and> evidence e = concat (map evidence (same_key k xs))
         \<and> tech_confidence e = Max (set (map tech_confidence (same_key k xs))))"

section \<open>developer_analyzer.py: team dynamics\<close>

record 'd DeveloperProfile =
  dev_name :: string
  email :: string
  role :: string
  company :: string
  expertise_areas :: "string list"
  skill_level :: string
  skill_description :: string
  contribution_pattern :: string
  commit_frequency :: pyfloat
  last_contribution :: 'd
  dev_business_value :: string
  knowledge_areas :: "string list"
  collaboration_score :: pyfloat
  code_quality_score :: pyfloat

record TeamDynamics =
  team_size :: nat
  collaboration_model :: string
  knowledge_distribution :: string
  bus_factor :: nat
  primary_contributors :: "string list"
  secondary_contributors :: "string list"
  knowledge_concentration :: pyfloat
  team_stability :: string
  communication_patterns :: "string list"

text \<open>The per-author statistics of \<open>git_analyzer.py\<close>, and the business value that
  \<open>_assess_business_value\<close> derives from the contribution percentage.\<close>

record 'd AuthorStats =
  stat_name :: string
  stat_email :: string
  stat_commit_count :: int
  total_lines_added :: int
  total_lines_deleted :: int
  first_commit :: 'd
  last_commit :: 'd
  stat_commit_frequency :: pyfloat
  average_commit_size :: pyfloat
  contribution_percentage :: pyfloat

definition assess_business_value :: "'d AuthorStats \<Rightarrow> 'd CommitInfo list \<Rightarrow> string" where
  "assess_business_value author_stat commits =
     (if 40 \<le> contribution_percentage author_stat then ''Critical''
      else if 20 \<le> contribution_percentage author_stat then ''High''
      else if 10 \<le> contribution_percentage author_stat then ''Medium''
      else if 5 \<le> contribution_percentage author_stat then ''Low''
      else ''Minimal'')"

definition determine_collaboration_model ::
  "'d DeveloperProfile list \<Rightarrow> 'd CommitInfo list \<Rightarrow> string" where
  "determine_collaboration_model developer_profiles commits =
     (if developer_profiles = [] then ''Unknown''
      else
        (let primary = filter (\<lambda>p. dev_business_value p \<in> set [''Critical'', ''High''])
                         developer_profiles;
             secondary = filter (\<lambda>p. dev_business_value p \<in> set [''Medium'', ''Low''])
                           developer_profiles
         in if length primary = 1 \<and> length secondary \<le> 2 then ''Single Lead with Support''
            else if length primary \<le> 2 \<and> 3 \<le> length secondary
            then ''Small Core Team with Extended Support''
            else if 3 \<le> length primary then ''Collaborative Team''
            else ''Distributed Team''))"

definition analyze_knowledge_distribution :: "'d DeveloperProfile list \<Rightarrow> string" where
  "analyze_knowledge_distribution developer_profiles =
     (if developer_profiles = [] then ''Unknown''
      else
        (let total_contributors = length developer_profiles;
             primary = filter (\<lambda>p. dev_business_value p \<in> set [''Critical'', ''High''])
                         developer_profiles;
             concentration_ratio = (of_nat (length primary) :: pyfloat) / of_nat total_contributors
         in if concentration_ratio \<le> 3 / 10 then ''Well Distributed''
            else if concentration_ratio \<le> 5 / 10 then ''Moderately Distributed''
            else ''Highly Concentrated''))"

text \<open>The weight table \<open>{'Critical': 5, 'High': 4, 'Medium': 3, 'Low': 2, 'Minimal': 1}\<close>;
  a subscript with another business value raises \<open>KeyError\<close>.\<close>

definition business_value_weights :: "string \<rightharpoonup> int" where
  "business_value_weights =
     map_of [(''Critical'', 5), (''High'', 4), (''Medium'', 3), (''Low'', 2), (''Minimal'', 1)]"

text \<open>\<open>sorted(profiles, key=..., reverse=True)\<close> computes the key of every profile
  first; \<open>sort_keys\<close> is that pass, \<open>None\<close> when a subscript raises.\<close>

fun sort_keys :: "'d DeveloperProfile list \<Rightarrow> int list option" where
  "sort_keys [] = Some []"
| "sort_keys (p # ps) =
     (case business_value_weights (dev_business_value p) of
        None \<Rightarrow> None
      | Some w \<Rightarrow> (case sort_keys ps of None \<Rightarrow> None | Some ws \<Rightarrow> Some (w # ws)))"

text \<open>The counting loop of \<open>_calculate_bus_factor\<close>, with its \<open>break\<close> at 70 percent.\<close>

fun bus_factor_loop :: "nat \<Rightarrow> 'a list \<Rightarrow> nat \<Rightarrow> nat" where
  "bus_factor_loop total_contributors [] counted = counted"
| "bus_factor_loop total_contributors (profile # rest) counted =
     (if (of_nat total_contributors :: pyfloat) * (7 / 10) \<le> of_nat (counted + 1)
      then counted + 1
      else bus_factor_loop total_contributors rest (counted + 1))"

definition calculate_bus_factor :: "'d DeveloperProfile list \<Rightarrow> py_error + nat" where
  "calculate_bus_factor developer_profiles =
     (if developer_profiles = [] then Inr 0
      else
        (case sort_keys developer_profiles of
           None \<Rightarrow> Inl KeyError
         | Some keys \<Rightarrow>
             (let sorted_profiles = map snd (sorted_reverse fst (zip keys developer_profiles));
                  total_contributors = length developer_profiles
              in Inr (bus_factor_loop total_contributors sorted_profiles 0))))"

definition categorize_contributors :: "'d DeveloperProfile list \<Rightarrow> string list \<times> string list" where
  "categorize_contributors developer_profiles =
     (map dev_name (filter (\<lambda>p. dev_business_value p \<in> set [''Critical'', ''High''])
        developer_profiles),
      map dev_name (filter (\<lambda>p. dev_business_value p \<in> set [''Medium'', ''Low'', ''Minimal''])
        developer_profiles))"

text \<open>
  \<open>_calculate_knowledge_concentration\<close> accumulates \<open>weight * profile.contribution_pattern\<close>
  into \<open>weighted_sum\<close>, which starts as the integer 0. The contribution pattern is a
  string, so the product is the string repeated and the sum adds a string to an integer.
  The accumulator is therefore a Python value that is an integer or a string.
\<close>

datatype pyval = PyInt int | PyStr string

definition py_mul_int_str :: "int \<Rightarrow> string \<Rightarrow> pyval" where
  "py_mul_int_str n s = PyStr (concat (replicate (nat n) s))"

fun py_add :: "pyval \<Rightarrow> pyval \<Rightarrow> py_error + pyval" where
  "py_add (PyInt a) (PyInt b) = Inr (PyInt (a + b))"
| "py_add (PyStr a) (PyStr b) = Inr (PyStr (a @ b))"
| "py_add (PyInt a) (PyStr b) = Inl TypeError"
| "py_add (PyStr a) (PyInt b) = Inl TypeError"

fun py_div_int :: "pyval \<Rightarrow> int \<Rightarrow> py_error + pyfloat" where
  "py_div_int (PyInt a) n = Inr (of_int a / of_int n)"
| "py_div_int (PyStr a) n = Inl TypeError"

fun concentration_loop ::
  "'d DeveloperProfile list \<Rightarrow> int \<Rightarrow> pyval \<Rightarrow> py_error + int \<times> pyval" where
  "concentration_loop [] total_weight weighted_sum = Inr (total_weight, weighted_sum)"
| "concentration_loop (profile # rest) total_weight weighted_sum =
     (case business_value_weights (dev_business_value profile) of
        None \<Rightarrow> Inl KeyError
      | Some weight \<Rightarrow>
          (case py_add weighted_sum (py_mul_int_str weight (contribution_pattern profile)) of
             Inl e \<Rightarrow> Inl e
           | Inr weighted_sum' \<Rightarrow> concentration_loop rest (total_weight + weight) weighted_sum'))"

definition calculate_knowledge_concentration :: "'d DeveloperProfile list \<Rightarrow> py_error + pyfloat" where
  "calculate_knowledge_concentration developer_profiles =
     (if developer_profiles = [] then Inr 0
      else
        (case concentration_loop developer_profiles 0 (PyInt 0) of
           Inl e \<Rightarrow> Inl e
         | Inr (total_weight, weighted_sum) \<Rightarrow>
             (if 0 < total_weight then py_div_int weighted_sum total_weight else Inr 0)))"

text \<open>
  \<open>_assess_team_stability\<close> compares commit dates with \<open>datetime.now()\<close> minus 30 days;
  \<open>recent d\<close> stands for \<open>d > recent_cutoff\<close>.
\<close>

definition assess_team_stability ::
  "('d \<Rightarrow> bool) \<Rightarrow> 'd DeveloperProfile list \<Rightarrow> 'd CommitInfo list \<Rightarrow> string" where
  "assess_team_stability recent developer_profiles commits =
     (if developer_profiles = [] \<or> commits = [] then ''Unknown''
      else
        (let recent_commits = filter (\<lambda>c. recent (date c)) commits
         in if recent_commits = [] then ''Inactive''
            else
              (let recent_authors = remdups (map author recent_commits);
                   total_developers = length developer_profiles;
                   active_ratio =
                     (of_nat (length recent_authors) :: pyfloat) / of_nat total_developers
               in if 8 / 10 \<le> active_ratio then ''Very Stable''
                  else if 6 / 10 \<le> active_ratio then ''Stable''
                  else if 4 / 10 \<le> active_ratio then ''Moderately Stable''
                  else ''Unstable'')))"

definition analyze_communication_patterns :: "'d CommitInfo list \<Rightarrow> string list" where
  "analyze_communication_patterns commits =
     (if commits = [] then []
      else
        (let avg_message_length =
               (of_nat (sum_list (map (\<lambda>c. length (message c)) commits)) :: pyfloat)
                 / of_nat (length commits);
             patterns1 =
               (if 50 \<le> avg_message_length then [''Detailed Communication'']
                else if 20 \<le> avg_message_length then [''Standard Communication'']
                else [''Minimal Communication'']);
             conventional_commits =
               length (filter (\<lambda>c. any_in [''feat:'', ''fix:'', ''docs:'', ''refactor:'']
                                      (lower (message c))) commits);
             conventional_ratio =
               (of_nat conventional_commits :: pyfloat) / of_nat (length commits)
         in patterns1 @
            (if 7 / 10 \<le> conventional_ratio then [''Structured Commit Messages'']
             else if 4 / 10 \<le> conventional_ratio then [''Mixed Commit Styles'']
             else [''Informal Commit Messages''])))"

text \<open>\<open>analyze_team_dynamics\<close> calls the helpers in this order; the first exception
  leaves the function.\<close>

definition analyze_team_dynamics ::
  "('d \<Rightarrow> bool) \<Rightarrow> 'd DeveloperProfile list \<Rightarrow> 'd CommitInfo list \<Rightarrow> py_error + TeamDynamics" where
  "analyze_team_dynamics recent developer_profiles commits =
     (case calculate_bus_factor developer_profiles of
        Inl e \<Rightarrow> Inl e
      | Inr bf \<Rightarrow>
          (case calculate_knowledge_concentration developer_profiles of
             Inl e \<Rightarrow> Inl e
           | Inr kc \<Rightarrow>
               Inr \<lparr>team_size = length developer_profiles,
                    collaboration_model = determine_collaboration_model developer_profiles commits,
                    knowledge_distribution = analyze_knowledge_distribution developer_profiles,
                    bus_factor = bf,
                    primary_contributors = fst (categorize_contributors developer_profiles),
                    secondary_contributors = snd (categorize_contributors developer_profiles),
                    knowledge_concentration = kc,
                    team_stability = assess_team_stability recent developer_profiles commits,
                    communication_patterns = analyze_communication_patterns commits\<rparr>))"

text \<open>
  Knowledge concentration as the specification words it: the fraction of the profiles
  whose business value is Critical or High.
\<close>

definition primary_fraction :: "'d DeveloperProfile list \<Rightarrow> pyfloat" where
  "primary_fraction developer_profiles =
     of_nat (length (filter (\<lambda>p. dev_business_value p \<in> set [''Critical'', ''High''])
               developer_profiles))
       / of_nat (length developer_profiles)"

section \<open>risk_assessor.py: business risks\<close>

record 'd Risk =
  risk_id :: string
  risk_name :: string
  risk_category :: string
  probability :: string
  impact :: string
  risk_business_impact :: string
  risk_description :: string
  mitigation_strategy :: string
  risk_score :: pyfloat
  detection_date :: 'd
  risk_status :: string

definition assess_scope_creep :: "'d Feature list \<Rightarrow> 'd CommitInfo list \<Rightarrow> pyfloat" where
  "assess_scope_creep features commits =
     (if features = [] \<or> commits = [] then 0 else 3 / 10)"

definition assess_timeline_risks :: "'d Feature list \<Rightarrow> 'd CommitInfo list \<Rightarrow> pyfloat" where
  "assess_timeline_risks features commits =
     (if features = [] then 0
      else
        (let high_complexity_features = filter (\<lambda>f. complexity f = ''high'') features;
             total_features = length features
         in if total_features = 0 then 0
            else
              (let complexity_risk =
                     (of_nat (length high_complexity_features) :: pyfloat) / of_nat total_features;
                   additional0 = (0 :: pyfloat);
                   additional1 =
                     (if filter (\<lambda>f. risk_level f = ''High'') features \<noteq> []
                      then additional0 + 2 / 10 else additional0);
                   additional2 =
                     (if filter (\<lambda>f. dependencies f \<noteq> []) features \<noteq> []
                      then additional1 + 1 / 10 else additional1)
               in min (complexity_risk + additional2) 1)))"

definition assess_resource_constraints :: "'d CommitInfo list \<Rightarrow> 'd Feature list \<Rightarrow> pyfloat" where
  "assess_resource_constraints commits features =
     (if commits = [] \<or> features = [] then 0 else 4 / 10)"

text \<open>
  \<open>_identify_business_risks\<close>. Every risk records \<open>datetime.now()\<close>; \<open>now\<close> is that
  reading of the clock. The timeline score is a quotient and a sum of floats, where the
  exact value and the double can lie on different sides of the trigger \<open>0.7\<close>; the
  function that computes it is the parameter \<open>timeline_risks\<close>, and
  \<open>assess_timeline_risks\<close> above is its exact version.
\<close>

definition identify_business_risks ::
  "('d Feature list \<Rightarrow> 'd CommitInfo list \<Rightarrow> pyfloat) \<Rightarrow> 'd \<Rightarrow> 'd Feature list
     \<Rightarrow> 'd CommitInfo list \<Rightarrow> 'd Risk list" where
  "identify_business_risks timeline_risks now features commits =
     (let risks0 = [];
          scope_creep_score = assess_scope_creep features commits;
          risks1 =
            (if 6 / 10 < scope_creep_score then
               risks0 @
               [\<lparr>risk_id = ''BUS_001'', risk_name = ''Scope Creep'', risk_category = ''business'',
                 probability = ''medium'', impact = ''high'',
                 risk_business_impact = ''Delayed delivery and increased costs'',
                 risk_description =
                   ''Project shows signs of scope creep with expanding feature set'',
                 mitigation_strategy =
                   ''Strict change control, regular scope reviews, stakeholder alignment'',
                 risk_score = scope_creep_score, detection_date = now,
                 risk_status = ''identified''\<rparr>]
             else risks0);
          timeline_risk = timeline_risks features commits;
          risks2 =
            (if 7 / 10 < timeline_risk then
               risks1 @
               [\<lparr>risk_id = ''BUS_002'', risk_name = ''Timeline Risks'', risk_category = ''business'',
                 probability = ''high'', impact = ''high'',
                 risk_business_impact = ''Missed deadlines and stakeholder dissatisfaction'',
                 risk_description = ''Project timeline shows significant risks of delays'',
                 mitigation_strategy =
                   ''Resource reallocation, scope reduction, stakeholder communication'',
                 risk_score = timeline_risk, detection_date = now,
                 risk_status = ''identified''\<rparr>]
             else risks1);
          resource_risk = assess_resource_constraints commits features;
          risks3 =
            (if 6 / 10 < resource_risk then
               risks2 @
               [\<lparr>risk_id = ''BUS_003'', risk_name = ''Resource Constraints'',
                 risk_category = ''business'', probability = ''medium'', impact = ''medium'',
                 risk_business_impact = ''Reduced development velocity and quality'',
                 risk_description =
                   ''Project may face resource constraints affecting delivery'',
                 mitigation_strategy = ''Resource planning, prioritization, external support'',
                 risk_score = resource_risk, detection_date = now,
                 risk_status = ''identified''\<rparr>]
             else risks2)
      in risks3)"

section \<open>Example inputs\<close>

definition small_high_risk_feature :: "nat Feature" where
  "small_high_risk_feature =
     \<lparr>name = ''login'', description = ''Development work'', complexity = ''medium'',
      status = ''planned'', estimated_hours = 0, actual_hours = None, commit_count = 1,
      lines_of_code = 50, business_value = ''Medium'', priority = ''Medium'',
      risk_level = ''High'', confidence = 5 / 10, start_date = None, end_date = None,
      dependencies = [], tags = []\<rparr>"

definition auth_feature_data :: "nat feature_data" where
  "auth_feature_data =
     \<lparr>fd_commits = [], fd_lines_changed = 1200, fd_start_date = None, fd_end_date = Some 3,
      fd_tags = [''api'', ''feature''], fd_dependencies = None\<rparr>"

text \<open>Dates as day numbers, a week being seven days; the other helpers are constant.\<close>

definition day_number_helpers :: "nat pattern_helpers" where
  "day_number_helpers =
     \<lparr>week_key = (\<lambda>d. str_nat (d div 7)), commits_per_day = (\<lambda>commits. 1),
      find_most_active_days = (\<lambda>commits. []), assess_commit_message_quality = (\<lambda>commits. 0)\<rparr>"

definition commit_on :: "nat \<Rightarrow> string \<Rightarrow> nat CommitInfo" where
  "commit_on d msg =
     \<lparr>hash = ''0a1b2c'', author = ''Ada'', author_email = ''ada@example.org'', date = d,
      message = msg, files_changed = 1, lines_added = 10, lines_deleted = 2,
      is_merge = False, branch = ''main''\<rparr>"

definition three_commits :: "nat CommitInfo list" where
  "three_commits =
     [commit_on 0 ''feat: add login'', commit_on 1 ''fix: null pointer'',
      commit_on 2 ''docs: update readme'']"

definition tech_entry :: "string \<Rightarrow> string \<Rightarrow> pyfloat \<Rightarrow> string \<Rightarrow> TechnologyInfo" where
  "tech_entry n c conf ev =
     \<lparr>tech_name = n, tech_category = c, tech_confidence = conf, evidence = [ev], version = None\<rparr>"

definition python_config :: "TechnologyInfo list" where
  "python_config = [tech_entry ''Python'' ''Backend'' (8 / 10) ''Found requirements.txt'']"

definition python_source :: "TechnologyInfo list" where
  "python_source = [tech_entry ''Python'' ''Backend'' (7 / 10) ''Found 3 .py files'']"

definition webpack_build :: "TechnologyInfo list" where
  "webpack_build = [tech_entry ''Webpack'' ''Build Tools'' (9 / 10) ''Found webpack.config.js'']"

definition profile_of :: "string \<Rightarrow> string \<Rightarrow> nat DeveloperProfile" where
  "profile_of n bv =
     \<lparr>dev_name = n, email = ''dev@example.org'', role = ''Developer'', company = ''Example'',
      expertise_areas = [''General Development''], skill_level = ''Senior'',
      skill_description = ''Experienced developer'', contribution_pattern = ''Single contribution'',
      commit_frequency = 1, last_contribution = 0, dev_business_value = bv,
      knowledge_areas = [''General Software Development''], collaboration_score = 5 / 10,
      code_quality_score = 5 / 10\<rparr>"

definition high_complexity_feature :: "nat Feature" where
  "high_complexity_feature =
     small_high_risk_feature\<lparr>name := ''payments'', complexity := ''high'', lines_of_code := 1200\<rparr>"

section \<open>Verified properties\<close>

subsection \<open>Rounding\<close>

lemma round_half_even_of_int: "round_half_even (of_int k) = k"
  by (simp add: round_half_even_def)

lemma py_round1_idem: "py_round1 (py_round1 x) = py_round1 x"
  by (simp add: py_round1_def round_half_even_of_int)

lemma round_half_even_nonneg: "0 \<le> y \<Longrightarrow> 0 \<le> round_half_even y"
  by (auto simp add: round_half_even_def Let_def)

lemma py_round1_nonneg: "0 \<le> x \<Longrightarrow> 0 \<le> py_round1 x"
  by (simp add: py_round1_def round_half_even_nonneg)

lemma length_sorted_reverse: "length (sorted_reverse f xs) = length xs"
  by (simp add: sorted_reverse_def)

lemma set_sorted_reverse: "set (sorted_reverse f xs) = set xs"
  by (simp add: sorted_reverse_def)

subsection \<open>Complexity of a feature\<close>

lemma get_complexity_level_cases:
  "get_complexity_level cfg loc n = ''low'' \<or> get_complexity_level cfg loc n = ''medium''
     \<or> get_complexity_level cfg loc n = ''high''"
  by (simp add: get_complexity_level_def)

lemma assess_complexity_cases:
  "assess_complexity cfg f = ''low'' \<or> assess_complexity cfg f = ''medium''
     \<or> assess_complexity cfg f = ''high''"
  using get_complexity_level_cases [of cfg "lines_of_code f" "commit_count f"]
  by (auto simp add: assess_complexity_def Let_def)

lemma complexity_scores_simps:
  "complexity_scores ''low'' = Some 1" "complexity_scores ''medium'' = Some 2"
  "complexity_scores ''high'' = Some 3"
  by (simp_all add: complexity_scores_def)

lemma risk_level_rank_not_high:
  "risk_level_rank r = Some k \<Longrightarrow> r \<noteq> ''high''"
  by (auto simp add: risk_level_rank_def)

text \<open>
  \<open>assess_complexity\<close> compares the risk level with the string \<open>'high'\<close>. A level that
  \<open>_determine_risk_level\<close> produces is never that string, so for such a feature only the
  thresholds and the number of dependencies decide.
\<close>

lemma assess_complexity_ranked_risk:
  assumes "risk_level_rank (risk_level f) = Some k"
  shows "assess_complexity cfg f =
     (let c = get_complexity_level cfg (lines_of_code f) (commit_count f)
      in if 3 < length (dependencies f)
         then (if c = ''low'' then ''medium'' else if c = ''medium'' then ''high'' else c)
         else c)"
  using risk_level_rank_not_high [OF assms]
  by (auto simp add: assess_complexity_def Let_def)

text \<open>
  Claim C3 says that a feature whose risk level is \<open>High\<close> has its base complexity
  raised by one level. The feature below has 50 lines of code, one commit, no
  dependency and risk level \<open>High\<close>: its base level under the default thresholds is
  \<open>low\<close>, and \<open>assess_complexity\<close> returns \<open>low\<close>, not \<open>medium\<close>.
\<close>

theorem assess_complexity_high_risk_not_escalated:
  "get_complexity_level AnalysisConfig_init (lines_of_code small_high_risk_feature)
       (commit_count small_high_risk_feature) = ''low''
   \<and> risk_level small_high_risk_feature = ''High''
   \<and> assess_complexity AnalysisConfig_init small_high_risk_feature = ''low''"
  by (simp add: assess_complexity_def get_complexity_level_def small_high_risk_feature_def
      AnalysisConfig_init_def ComplexityThresholds_default_def)

text \<open>
  Claim C6: \<open>assess_complexity\<close> is monotonic. With every other field fixed, appending
  entries to the dependency list and replacing the risk level by one that is not lower
  (\<open>Low < Medium < High\<close>) gives a complexity tier that is not lower, the tiers ordered
  by the score table \<open>low = 1\<close>, \<open>medium = 2\<close>, \<open>high = 3\<close>.
\<close>

theorem assess_complexity_monotonic:
  assumes "risk_level_rank (risk_level f) = Some r1"
    and "risk_level_rank risk' = Some r2"
    and "r1 \<le> r2"
  shows "\<exists>t1 t2.
      complexity_scores (assess_complexity cfg f) = Some t1
    \<and> complexity_scores
        (assess_complexity cfg (f\<lparr>dependencies := dependencies f @ extra, risk_level := risk'\<rparr>))
        = Some t2
    \<and> t1 \<le> t2"
proof -
  let ?g = "f\<lparr>dependencies := dependencies f @ extra, risk_level := risk'\<rparr>"
  have g: "risk_level_rank (risk_level ?g) = Some r2" using assms(2) by simp
  show ?thesis
    using get_complexity_level_cases [of cfg "lines_of_code f" "commit_count f"]
    unfolding assess_complexity_ranked_risk [OF assms(1)] assess_complexity_ranked_risk [OF g]
    by (auto simp add: Let_def complexity_scores_simps)
qed

theorem assess_complexity_monotonic_witness:
  "complexity_scores (assess_complexity AnalysisConfig_init
      (small_high_risk_feature\<lparr>risk_level := ''Low''\<rparr>)) = Some 1
   \<and> complexity_scores (assess_complexity AnalysisConfig_init
      (small_high_risk_feature\<lparr>dependencies := [''a'', ''b'', ''c'', ''d''], risk_level := ''High''\<rparr>))
      = Some 2"
  using assess_complexity_monotonic [of "small_high_risk_feature\<lparr>risk_level := ''Low''\<rparr>" 1
      "''High''" 3 AnalysisConfig_init "[''a'', ''b'', ''c'', ''d'']"]
  by (simp add: assess_complexity_def get_complexity_level_def small_high_risk_feature_def
      AnalysisConfig_init_def ComplexityThresholds_default_def complexity_scores_def
      risk_level_rank_def)

subsection \<open>Time estimate\<close>

lemma multipliers_get_init_nonneg: "0 \<le> multipliers_get AnalysisConfig_init c"
  by (simp add: multipliers_get_def AnalysisConfig_init_def ComplexityThresholds_default_def)

lemma get_time_estimate_nonneg:
  "0 \<le> n \<Longrightarrow> 0 \<le> get_time_estimate AnalysisConfig_init c n"
  unfolding get_time_estimate_def Let_def
  apply (rule py_round1_nonneg)
  apply (rule mult_nonneg_nonneg)
   apply (rule mult_nonneg_nonneg)
    apply (rule multipliers_get_init_nonneg)
   apply simp
  apply (simp add: AnalysisConfig_init_def ComplexityThresholds_default_def)
  done

lemma estimate_development_time_nonneg:
  assumes "0 \<le> commit_count f"
  shows "0 \<le> estimate_development_time AnalysisConfig_init f"
  unfolding estimate_development_time_def Let_def
  apply (rule py_round1_nonneg)
  apply (rule mult_nonneg_nonneg)
   apply (rule get_time_estimate_nonneg [OF assms])
  apply simp
  done

lemma estimate_development_time_fields:
  "complexity g = complexity f \<Longrightarrow> commit_count g = commit_count f
     \<Longrightarrow> business_value g = business_value f \<Longrightarrow> risk_level g = risk_level f
     \<Longrightarrow> dependencies g = dependencies f
     \<Longrightarrow> estimate_development_time cfg g = estimate_development_time cfg f"
  by (simp add: estimate_development_time_def)

lemma estimate_development_time_rounded:
  "py_round1 (estimate_development_time cfg f) = estimate_development_time cfg f"
  by (simp add: estimate_development_time_def Let_def py_round1_idem)

text \<open>
  Claim C8: for a feature with a non-negative commit count, under the configuration
  that \<open>AnalysisConfig()\<close> builds, \<open>estimate_development_time\<close> is deterministic: it is
  a function of the feature, and of no more of it than its complexity, commit count,
  business value, risk level and dependencies, so the same feature gives the same
  estimate on every call. Its result is not negative, and rounding the result to one
  decimal place gives the result back.
\<close>

theorem estimate_development_time_nonneg_rounded:
  assumes "0 \<le> commit_count f"
  shows "(\<forall>g. complexity g = complexity f \<and> commit_count g = commit_count f
            \<and> business_value g = business_value f \<and> risk_level g = risk_level f
            \<and> dependencies g = dependencies f \<longrightarrow>
            estimate_development_time AnalysisConfig_init g
              = estimate_development_time AnalysisConfig_init f)
    \<and> 0 \<le> estimate_development_time AnalysisConfig_init f
    \<and> py_round1 (estimate_development_time AnalysisConfig_init f)
        = estimate_development_time AnalysisConfig_init f"
  using estimate_development_time_nonneg [OF assms] estimate_development_time_rounded
    estimate_development_time_fields
  by blast

theorem estimate_development_time_witness:
  "0 \<le> commit_count small_high_risk_feature
   \<and> estimate_development_time AnalysisConfig_init small_high_risk_feature = 47 / 10
   \<and> py_round1 (47 / 10) = 47 / 10"
proof -
  have c: "0 \<le> commit_count small_high_risk_feature"
    by (simp add: small_high_risk_feature_def)
  have e: "estimate_development_time AnalysisConfig_init small_high_risk_feature = 47 / 10"
    by code_simp
  from estimate_development_time_nonneg_rounded [OF c]
  have "py_round1 (estimate_development_time AnalysisConfig_init small_high_risk_feature)
      = estimate_development_time AnalysisConfig_init small_high_risk_feature"
    by blast
  then have "py_round1 (47 / 10) = 47 / 10" unfolding e .
  with c e show ?thesis by blast
qed

subsection \<open>Features built by \<open>identify_features\<close>\<close>

lemma create_feature_object_complexity:
  "create_feature_object cfg n fd cs = Some f \<Longrightarrow>
     complexity f = ''low'' \<or> complexity f = ''medium'' \<or> complexity f = ''high''"
  unfolding create_feature_object_def Let_def
  using assess_complexity_cases by fastforce

lemma identify_features_complexity:
  "f \<in> set (identify_features cfg extract commits repo) \<Longrightarrow>
     complexity f = ''low'' \<or> complexity f = ''medium'' \<or> complexity f = ''high''"
  unfolding identify_features_def Let_def set_sorted_reverse
  by (auto simp add: List.map_filter_def dest: create_feature_object_complexity)

lemma groups_append_members:
  "(k', vs') \<in> set (groups_append groups k v) \<Longrightarrow>
     set vs' \<subseteq> insert v (\<Union>(set ` snd ` set groups))"
  by (induction groups k v rule: groups_append.induct) (auto split: if_splits)

lemma build_groups_members:
  "(k, vs) \<in> set (build_groups groups fs) \<Longrightarrow>
     set vs \<subseteq> set fs \<union> \<Union>(set ` snd ` set groups)"
proof (induction groups fs rule: build_groups.induct)
  case (1 groups)
  then show ?case by force
next
  case (2 groups feature features)
  from 2 have "set vs \<subseteq> set features
      \<union> \<Union>(set ` snd ` set (groups_append groups (determine_feature_group feature) feature))"
    by simp
  moreover have "\<Union>(set ` snd ` set (groups_append groups (determine_feature_group feature) feature))
      \<subseteq> insert feature (\<Union>(set ` snd ` set groups))"
    using groups_append_members by fastforce
  ultimately show ?case by auto
qed

lemma sum_complexity_scores_ok:
  "(\<And>f. f \<in> set fs \<Longrightarrow>
       complexity f = ''low'' \<or> complexity f = ''medium'' \<or> complexity f = ''high'')
     \<Longrightarrow> \<exists>t. sum_complexity_scores fs = Inr t"
proof (induction fs)
  case Nil
  then show ?case by simp
next
  case (Cons f fs)
  then obtain t where t: "sum_complexity_scores fs = Inr t" by auto
  from Cons.prems [of f] obtain s where "complexity_scores (complexity f) = Some s"
    using complexity_scores_simps by auto
  with t show ?case by simp
qed

lemma make_groups_ok:
  "(\<And>k vs f. (k, vs) \<in> set gs \<Longrightarrow> f \<in> set vs \<Longrightarrow>
       complexity f = ''low'' \<or> complexity f = ''medium'' \<or> complexity f = ''high'')
     \<Longrightarrow> \<exists>fgs. make_groups gs = Inr fgs"
proof (induction gs)
  case Nil
  then show ?case by simp
next
  case (Cons g gs)
  obtain k vs where g: "g = (k, vs)" by (cases g)
  have "\<exists>t. sum_complexity_scores vs = Inr t"
    by (rule sum_complexity_scores_ok) (use Cons.prems g in auto)
  then have "\<exists>fg. make_group g = Inr fg"
    by (auto simp add: make_group_def g Let_def)
  moreover have "\<exists>fgs. make_groups gs = Inr fgs"
    by (rule Cons.IH) (use Cons.prems in auto)
  ultimately show ?case by auto
qed

lemma group_features_ok:
  assumes "\<And>f. f \<in> set fs \<Longrightarrow>
    complexity f = ''low'' \<or> complexity f = ''medium'' \<or> complexity f = ''high''"
  shows "\<exists>gs. group_features fs = Inr gs"
proof -
  have "\<exists>fgs. make_groups (build_groups [] fs) = Inr fgs"
  proof (rule make_groups_ok)
    fix k vs f
    assume "(k, vs) \<in> set (build_groups [] fs)" "f \<in> set vs"
    then have "f \<in> set fs" using build_groups_members [of k vs "[]" fs] by auto
    then show "complexity f = ''low'' \<or> complexity f = ''medium'' \<or> complexity f = ''high''"
      by (rule assms)
  qed
  then show ?thesis by (auto simp add: group_features_def)
qed

text \<open>
  Claim C10: every feature that \<open>identify_features\<close> returns has the complexity
  \<open>'low'\<close>, \<open>'medium'\<close> or \<open>'high'\<close>, whatever the extraction passes found, so
  \<open>group_features\<close> on that list returns its groups: no lookup in the complexity-score
  table raises \<open>KeyError\<close>.
\<close>

theorem identify_features_complexity_in_table:
  "(\<forall>f \<in> set (identify_features cfg extract commits repo_structure).
       complexity f = ''low'' \<or> complexity f = ''medium'' \<or> complexity f = ''high'')
   \<and> (\<exists>groups. group_features (identify_features cfg extract commits repo_structure) = Inr groups)"
  using identify_features_complexity group_features_ok
  by (metis (no_types, lifting))

theorem identify_features_complexity_in_table_witness:
  "map complexity (identify_features AnalysisConfig_init
       (\<lambda>commits repo. [(''User Auth'', auth_feature_data)]) [] ()) = [''high'']
   \<and> (\<exists>groups. group_features (identify_features AnalysisConfig_init
       (\<lambda>commits repo. [(''User Auth'', auth_feature_data)]) [] ()) = Inr groups)"
  using identify_features_complexity_in_table [of AnalysisConfig_init
      "\<lambda>commits repo. [(''User Auth'', auth_feature_data)]" "[]" "()"]
  by (simp add: identify_features_def sorted_reverse_def List.map_filter_def
      create_feature_object_def assess_complexity_def get_complexity_level_def
      auth_feature_data_def determine_risk_level_def extract_dependencies_def
      AnalysisConfig_init_def ComplexityThresholds_default_def Let_def)

subsection \<open>Commit classification\<close>

lemma count_commit_fields:
  "n_feature (count_commit g x c) = n_feature c + (if first_match g x = FeatureCommit then 1 else 0)"
  "n_bug_fix (count_commit g x c) = n_bug_fix c + (if first_match g x = BugFixCommit then 1 else 0)"
  "n_refactor (count_commit g x c) = n_refactor c + (if first_match g x = RefactorCommit then 1 else 0)"
  "n_documentation (count_commit g x c)
     = n_documentation c + (if first_match g x = DocumentationCommit then 1 else 0)"
  by (simp_all add: count_commit_def first_match_def Let_def)

lemma count_commits_feature:
  "n_feature (count_commits g xs c) = n_feature c + count_category g FeatureCommit xs"
  by (induction xs arbitrary: c) (simp_all add: count_commit_fields count_category_def)

lemma count_commits_bug_fix:
  "n_bug_fix (count_commits g xs c) = n_bug_fix c + count_category g BugFixCommit xs"
  by (induction xs arbitrary: c) (simp_all add: count_commit_fields count_category_def)

lemma count_commits_refactor:
  "n_refactor (count_commits g xs c) = n_refactor c + count_category g RefactorCommit xs"
  by (induction xs arbitrary: c) (simp_all add: count_commit_fields count_category_def)

lemma count_commits_documentation:
  "n_documentation (count_commits g xs c)
     = n_documentation c + count_category g DocumentationCommit xs"
  by (induction xs arbitrary: c) (simp_all add: count_commit_fields count_category_def)

lemma count_category_total:
  "count_category g FeatureCommit xs + count_category g BugFixCommit xs
     + count_category g RefactorCommit xs + count_category g DocumentationCommit xs
     + count_category g Unclassified xs = length xs"
proof (induction xs)
  case Nil
  then show ?case by (simp add: count_category_def)
next
  case (Cons x xs)
  then show ?case by (cases "first_match g x") (simp_all add: count_category_def)
qed

text \<open>
  Claim C2: for every commit list the four counters of the classifier count the commits
  whose first matching table, tried in the order feature, bug fix, refactoring,
  documentation on the lower-cased message, is theirs. Each commit has one category, so
  it is counted at most once, and the four counters plus the number of unclassified
  commits add up to \<open>total_commits\<close>.
\<close>

theorem commit_classifier_counts:
  "feature_commits (analyze_commit_patterns cfg lib commits)
      = count_category (git_cfg cfg) FeatureCommit commits
   \<and> bug_fix_commits (analyze_commit_patterns cfg lib commits)
      = count_category (git_cfg cfg) BugFixCommit commits
   \<and> refactor_commits (analyze_commit_patterns cfg lib commits)
      = count_category (git_cfg cfg) RefactorCommit commits
   \<and> documentation_commits (analyze_commit_patterns cfg lib commits)
      = count_category (git_cfg cfg) DocumentationCommit commits
   \<and> feature_commits (analyze_commit_patterns cfg lib commits)
      + bug_fix_commits (analyze_commit_patterns cfg lib commits)
      + refactor_commits (analyze_commit_patterns cfg lib commits)
      + documentation_commits (analyze_commit_patterns cfg lib commits)
      + count_category (git_cfg cfg) Unclassified commits
      = total_commits (analyze_commit_patterns cfg lib commits)"
proof (cases "commits = []")
  case True
  then show ?thesis by (simp add: analyze_commit_patterns_def count_category_def)
next
  case False
  then show ?thesis
    using count_category_total [of "git_cfg cfg" commits]
    by (simp add: analyze_commit_patterns_def Let_def count_commits_feature
        count_commits_bug_fix count_commits_refactor count_commits_documentation)
qed

theorem commit_classifier_counts_witness:
  "feature_commits (analyze_commit_patterns AnalysisConfig_init day_number_helpers three_commits) = 1
   \<and> bug_fix_commits (analyze_commit_patterns AnalysisConfig_init day_number_helpers three_commits) = 1
   \<and> refactor_commits (analyze_commit_patterns AnalysisConfig_init day_number_helpers three_commits) = 0
   \<and> documentation_commits (analyze_commit_patterns AnalysisConfig_init day_number_helpers three_commits) = 1
   \<and> count_category (git_cfg AnalysisConfig_init) Unclassified three_commits = 0
   \<and> total_commits (analyze_commit_patterns AnalysisConfig_init day_number_helpers three_commits) = 3"
proof -
  have "map (first_match (git_cfg AnalysisConfig_init)) three_commits
      = [FeatureCommit, BugFixCommit, DocumentationCommit]"
    by code_simp
  then have c: "count_category (git_cfg AnalysisConfig_init) FeatureCommit three_commits = 1"
    "count_category (git_cfg AnalysisConfig_init) BugFixCommit three_commits = 1"
    "count_category (git_cfg AnalysisConfig_init) RefactorCommit three_commits = 0"
    "count_category (git_cfg AnalysisConfig_init) DocumentationCommit three_commits = 1"
    "count_category (git_cfg AnalysisConfig_init) Unclassified three_commits = 0"
    by (simp_all add: count_category_def three_commits_def)
  have t: "total_commits (analyze_commit_patterns AnalysisConfig_init day_number_helpers three_commits) = 3"
    by (simp add: analyze_commit_patterns_def three_commits_def Let_def)
  show ?thesis
    using commit_classifier_counts [of AnalysisConfig_init day_number_helpers three_commits] c t
    by simp
qed

subsection \<open>Commit frequency trend\<close>

lemma increment_keys:
  "fst ` set (increment m k) = insert k (fst ` set m)"
  by (induction m k rule: increment.induct) auto

lemma increment_distinct:
  "distinct (map fst m) \<Longrightarrow> distinct (map fst (increment m k))"
proof (induction m k rule: increment.induct)
  case (1 k)
  then show ?case by simp
next
  case (2 k' n rest k)
  show ?case
  proof (cases "k' = k")
    case True
    with 2 show ?thesis by simp
  next
    case False
    with 2 show ?thesis by (simp add: increment_keys)
  qed
qed

lemma count_weeks_keys:
  "fst ` set (count_weeks m ks) = set ks \<union> fst ` set m"
  by (induction m ks rule: count_weeks.induct) (simp_all add: increment_keys)

lemma count_weeks_distinct:
  "distinct (map fst m) \<Longrightarrow> distinct (map fst (count_weeks m ks))"
  by (induction m ks rule: count_weeks.induct) (simp_all add: increment_distinct)

lemma length_count_weeks: "length (count_weeks [] ks) = card (set ks)"
proof -
  have "length (count_weeks [] ks) = length (map fst (count_weeks [] ks))" by simp
  also have "\<dots> = card (set (map fst (count_weeks [] ks)))"
    by (rule distinct_card [symmetric]) (simp add: count_weeks_distinct)
  also have "\<dots> = card (set ks)" by (simp add: count_weeks_keys)
  finally show ?thesis .
qed

lemma trend_values:
  "analyze_commit_frequency_trend lib commits = ''increasing''
   \<or> analyze_commit_frequency_trend lib commits = ''decreasing''
   \<or> analyze_commit_frequency_trend lib commits = ''stable''
   \<or> analyze_commit_frequency_trend lib commits = ''insufficient_data''"
  by (simp add: analyze_commit_frequency_trend_def Let_def)

lemma trend_insufficient:
  assumes "length commits < 10 \<or> card ((\<lambda>commit. week_key lib (date commit)) ` set commits) < 3"
  shows "analyze_commit_frequency_trend lib commits = ''insufficient_data''"
  using assms
  by (auto simp add: analyze_commit_frequency_trend_def Let_def length_count_weeks)

text \<open>
  Claim C4, amended: for the empty commit list the trend field is \<open>'unknown'\<close>, which
  the guard at the head of \<open>_analyze_commit_patterns\<close> returns. For every non-empty list
  it is one of \<open>'increasing'\<close>, \<open>'decreasing'\<close>, \<open>'stable'\<close>, \<open>'insufficient_data'\<close>, and it is
  \<open>'insufficient_data'\<close> when the list has fewer than 10 commits or its commits fall
  into fewer than 3 distinct weeks.
\<close>

theorem commit_frequency_trend_values:
  "(commits = [] \<longrightarrow>
      commit_frequency_trend (analyze_commit_patterns cfg lib commits) = ''unknown'')
   \<and> (commits \<noteq> [] \<longrightarrow>
      commit_frequency_trend (analyze_commit_patterns cfg lib commits)
        \<in> {''increasing'', ''decreasing'', ''stable'', ''insufficient_data''}
      \<and> (length commits < 10
           \<or> card ((\<lambda>commit. week_key lib (date commit)) ` set commits) < 3 \<longrightarrow>
         commit_frequency_trend (analyze_commit_patterns cfg lib commits) = ''insufficient_data''))"
  using trend_values [of lib commits] trend_insufficient [of commits lib]
  by (auto simp add: analyze_commit_patterns_def Let_def)

text \<open>The claim as stated includes the empty list, where the field is none of the four
  values.\<close>

theorem commit_frequency_trend_empty_counterexample:
  "commit_frequency_trend (analyze_commit_patterns AnalysisConfig_init day_number_helpers [])
     \<notin> {''increasing'', ''decreasing'', ''stable'', ''insufficient_data''}"
  by (simp add: analyze_commit_patterns_def)

theorem commit_frequency_trend_values_witness:
  "three_commits \<noteq> [] \<and> length three_commits < 10
   \<and> commit_frequency_trend (analyze_commit_patterns AnalysisConfig_init day_number_helpers
        three_commits) = ''insufficient_data''
   \<and> commit_frequency_trend (analyze_commit_patterns AnalysisConfig_init day_number_helpers [])
        = ''unknown''"
  using commit_frequency_trend_values [of three_commits AnalysisConfig_init day_number_helpers]
    commit_frequency_trend_values [of "[]" AnalysisConfig_init day_number_helpers]
  by (simp add: three_commits_def)

subsection \<open>Technology deduplication\<close>

lemma dedup_loop_append:
  "dedup_loop d (xs @ ys) = dedup_loop (dedup_loop d xs) ys"
  by (induction xs arbitrary: d) simp_all

lemma dict_merge_keys:
  "fst ` set (dict_merge d t) = insert (tech_key t) (fst ` set d)"
  by (induction d t rule: dict_merge.induct) auto

lemma dict_merge_distinct:
  "distinct (map fst d) \<Longrightarrow> distinct (map fst (dict_merge d t))"
proof (induction d t rule: dict_merge.induct)
  case (1 tech)
  then show ?case by simp
next
  case (2 key existing rest tech)
  show ?case
  proof (cases "key = tech_key tech")
    case True
    with 2 show ?thesis by simp
  next
    case False
    with 2 show ?thesis by (simp add: dict_merge_keys)
  qed
qed

lemma dict_merge_member:
  assumes "distinct (map fst d)"
  shows "(k, e) \<in> set (dict_merge d t) \<longleftrightarrow>
     (k \<noteq> tech_key t \<and> (k, e) \<in> set d)
     \<or> (k = tech_key t \<and> tech_key t \<notin> fst ` set d \<and> e = t)
     \<or> (k = tech_key t \<and> (\<exists>e0. (k, e0) \<in> set d \<and> e = merged e0 t))"
  using assms
proof (induction d t rule: dict_merge.induct)
  case (1 tech)
  then show ?case by auto
next
  case (2 key existing rest tech)
  show ?case
  proof (cases "key = tech_key tech")
    case True
    with 2 show ?thesis by (auto simp add: merged_def rev_image_eqI)
  next
    case False
    with 2 show ?thesis by auto
  qed
qed


lemma same_key_snoc:
  "same_key k (xs @ [t]) = (if tech_key t = k then same_key k xs @ [t] else same_key k xs)"
  by (simp add: same_key_def)

lemma same_key_empty: "k \<notin> tech_key ` set xs \<Longrightarrow> same_key k xs = []"
  by (auto simp add: same_key_def filter_empty_conv)

lemma same_key_nonempty: "k \<in> tech_key ` set xs \<Longrightarrow> same_key k xs \<noteq> []"
  by (auto simp add: same_key_def filter_empty_conv)

lemma tech_key_merged: "tech_key (merged e t) = tech_key e"
  by (simp add: merged_def tech_key_def)

lemma dedup_inv_step:
  assumes "dedup_inv d xs"
  shows "dedup_inv (dict_merge d t) (xs @ [t])"
proof -
  from assms have dist: "distinct (map fst d)" and keys: "fst ` set d = tech_key ` set xs"
    and ent: "\<And>k e. (k, e) \<in> set d \<Longrightarrow>
          tech_key e = k \<and> evidence e = concat (map evidence (same_key k xs))
          \<and> tech_confidence e = Max (set (map tech_confidence (same_key k xs)))"
    by (auto simp add: dedup_inv_def)
  have "tech_key e = k
        \<and> evidence e = concat (map evidence (same_key k (xs @ [t])))
        \<and> tech_confidence e = Max (set (map tech_confidence (same_key k (xs @ [t]))))"
    if mem: "(k, e) \<in> set (dict_merge d t)" for k e
  proof -
    from mem dict_merge_member [OF dist, of k e t]
    consider (other) "k \<noteq> tech_key t" "(k, e) \<in> set d"
      | (new) "k = tech_key t" "tech_key t \<notin> fst ` set d" "e = t"
      | (old) e0 where "k = tech_key t" "(k, e0) \<in> set d" "e = merged e0 t"
      by blast
    then show ?thesis
    proof cases
      case other
      then show ?thesis using ent [of k e] by (simp add: same_key_snoc)
    next
      case new
      then have "same_key k xs = []" using keys by (simp add: same_key_empty)
      with new show ?thesis by (simp add: same_key_snoc)
    next
      case old
      from old(2) have "k \<in> tech_key ` set xs" using keys by (metis fst_conv image_eqI)
      then have ne: "same_key k xs \<noteq> []" by (rule same_key_nonempty)
      from ent [OF old(2)] have e0: "tech_key e0 = k"
        "evidence e0 = concat (map evidence (same_key k xs))"
        "tech_confidence e0 = Max (set (map tech_confidence (same_key k xs)))" by simp_all
      have "Max (set (map tech_confidence (same_key k xs @ [t])))
          = max (tech_confidence t) (Max (set (map tech_confidence (same_key k xs))))"
        using ne by (simp add: Max_insert)
      with old e0 show ?thesis
        by (simp add: same_key_snoc tech_key_merged) (simp add: merged_def max.commute)
    qed
  qed
  moreover have "distinct (map fst (dict_merge d t))" using dist by (rule dict_merge_distinct)
  moreover have "fst ` set (dict_merge d t) = tech_key ` set (xs @ [t])"
    using keys by (simp add: dict_merge_keys)
  ultimately show ?thesis unfolding dedup_inv_def by blast
qed

lemma dedup_inv_loop: "dedup_inv (dedup_loop [] xs) xs"
proof (induction xs rule: rev_induct)
  case Nil
  then show ?case by (simp add: dedup_inv_def)
next
  case (snoc t xs)
  then show ?case by (simp add: dedup_loop_append dedup_inv_step)
qed

lemma sorted_reverse_descending:
  "sorted_wrt (\<lambda>a b. b \<le> a) (map f (sorted_reverse f xs))"
proof -
  have "sorted (map f (sort_key f (rev xs)))" by (rule sorted_sort_key)
  then have "sorted_wrt (\<lambda>a b. b \<le> a) (rev (map f (sort_key f (rev xs))))"
    by (simp add: sorted_wrt_rev)
  then show ?thesis by (simp add: sorted_reverse_def rev_map)
qed

lemma map_snd_keys:
  "(\<And>x. x \<in> set d \<Longrightarrow> f (snd x) = fst x) \<Longrightarrow> map f (map snd d) = map fst d"
  by (induction d) auto

text \<open>
  Claim C5: after deduplication no two entries share \<open>(name, category)\<close>, and the
  keys of the result are the keys of the input: every input is merged into the entry
  with its key and none is dropped. Every entry of the result stands for the inputs
  with its key, its confidence is the maximum of their confidences and its evidence is
  their evidence lists concatenated in input order. The stack that
  \<open>_identify_technology_stack\<close> returns holds the deduplicated entries of the three
  passes, as many as there are, sorted by descending confidence.
\<close>

theorem deduplicate_technologies_merged_sorted:
  "distinct (map tech_key (deduplicate_technologies tech_list))
   \<and> tech_key ` set (deduplicate_technologies tech_list) = tech_key ` set tech_list
   \<and> (\<forall>e \<in> set (deduplicate_technologies tech_list).
         same_key (tech_key e) tech_list \<noteq> []
       \<and> tech_confidence e = Max (set (map tech_confidence (same_key (tech_key e) tech_list)))
       \<and> evidence e = concat (map evidence (same_key (tech_key e) tech_list)))
   \<and> set (identify_technology_stack config_tech source_tech build_tech)
       = set (deduplicate_technologies (config_tech @ source_tech @ build_tech))
   \<and> length (identify_technology_stack config_tech source_tech build_tech)
       = length (deduplicate_technologies (config_tech @ source_tech @ build_tech))
   \<and> sorted_wrt (\<lambda>a b. b \<le> a)
        (map tech_confidence (identify_technology_stack config_tech source_tech build_tech))"
proof -
  let ?d = "dedup_loop [] tech_list"
  from dedup_inv_loop [of tech_list]
  have dist: "distinct (map fst ?d)" and keys: "fst ` set ?d = tech_key ` set tech_list"
    and ent: "\<And>k e. (k, e) \<in> set ?d \<Longrightarrow>
          tech_key e = k \<and> evidence e = concat (map evidence (same_key k tech_list))
          \<and> tech_confidence e = Max (set (map tech_confidence (same_key k tech_list)))"
    by (auto simp add: dedup_inv_def)
  have mk: "map tech_key (map snd ?d) = map fst ?d"
    by (rule map_snd_keys) (use ent in auto)
  with dist have 1: "distinct (map tech_key (deduplicate_technologies tech_list))"
    unfolding deduplicate_technologies_def by (simp only:)
  have "set (map tech_key (map snd ?d)) = set (map fst ?d)" by (simp only: mk)
  then have "tech_key ` set (map snd ?d) = fst ` set ?d" by (simp only: set_map)
  with keys have 4: "tech_key ` set (deduplicate_technologies tech_list) = tech_key ` set tech_list"
    unfolding deduplicate_technologies_def by (simp only:)
  have 5: "set (identify_technology_stack config_tech source_tech build_tech)
       = set (deduplicate_technologies (config_tech @ source_tech @ build_tech))"
    "length (identify_technology_stack config_tech source_tech build_tech)
       = length (deduplicate_technologies (config_tech @ source_tech @ build_tech))"
    by (simp_all add: identify_technology_stack_def Let_def set_sorted_reverse
        length_sorted_reverse)
  have 2: "same_key (tech_key e) tech_list \<noteq> []
       \<and> tech_confidence e = Max (set (map tech_confidence (same_key (tech_key e) tech_list)))
       \<and> evidence e = concat (map evidence (same_key (tech_key e) tech_list))"
    if "e \<in> set (deduplicate_technologies tech_list)" for e
  proof -
    from that obtain k where ke: "(k, e) \<in> set ?d"
      by (auto simp add: deduplicate_technologies_def)
    then have "k \<in> tech_key ` set tech_list" using keys by (metis fst_conv image_eqI)
    with ent [OF ke] show ?thesis by (auto simp add: same_key_nonempty)
  qed
  have 3: "sorted_wrt (\<lambda>a b. b \<le> a)
        (map tech_confidence (identify_technology_stack config_tech source_tech build_tech))"
    by (simp add: identify_technology_stack_def Let_def sorted_reverse_descending)
  from 1 2 3 4 5 show ?thesis by blast
qed

theorem deduplicate_technologies_merged_sorted_witness:
  "deduplicate_technologies (python_config @ python_source @ webpack_build)
     = [\<lparr>tech_name = ''Python'', tech_category = ''Backend'', tech_confidence = 8 / 10,
         evidence = [''Found requirements.txt'', ''Found 3 .py files''], version = None\<rparr>,
        tech_entry ''Webpack'' ''Build Tools'' (9 / 10) ''Found webpack.config.js'']
   \<and> map tech_key (identify_technology_stack python_config python_source webpack_build)
     = [(''Webpack'', ''Build Tools''), (''Python'', ''Backend'')]"
proof -
  have d: "deduplicate_technologies (python_config @ python_source @ webpack_build)
     = [\<lparr>tech_name = ''Python'', tech_category = ''Backend'', tech_confidence = 8 / 10,
         evidence = [''Found requirements.txt'', ''Found 3 .py files''], version = None\<rparr>,
        tech_entry ''Webpack'' ''Build Tools'' (9 / 10) ''Found webpack.config.js'']"
    by code_simp
  have s: "map tech_key (identify_technology_stack python_config python_source webpack_build)
     = [(''Webpack'', ''Build Tools''), (''Python'', ''Backend'')]"
    by code_simp
  show ?thesis
    using deduplicate_technologies_merged_sorted
      [of "python_config @ python_source @ webpack_build" python_config python_source
        webpack_build] d s
    by simp
qed

subsection \<open>Bus factor\<close>

lemma bus_factor_loop_bounds:
  "counted \<le> bus_factor_loop n xs counted
   \<and> bus_factor_loop n xs counted \<le> counted + length xs
   \<and> (xs \<noteq> [] \<longrightarrow> counted + 1 \<le> bus_factor_loop n xs counted)"
proof (induction xs arbitrary: counted)
  case Nil
  then show ?case by simp
next
  case (Cons x xs)
  from Cons [of "counted + 1"] show ?case by auto
qed

lemma sort_keys_Some:
  "(\<forall>p \<in> set ps. dev_business_value p \<in> dom business_value_weights)
     \<Longrightarrow> \<exists>ks. sort_keys ps = Some ks \<and> length ks = length ps"
  by (induction ps) auto

lemma sort_keys_Some_dom:
  "sort_keys ps = Some ks \<Longrightarrow> p \<in> set ps
     \<Longrightarrow> dev_business_value p \<in> dom business_value_weights"
  by (induction ps arbitrary: ks) (auto split: option.splits)

lemma sort_keys_None:
  "\<not> (\<forall>p \<in> set ps. dev_business_value p \<in> dom business_value_weights)
     \<Longrightarrow> sort_keys ps = None"
  using sort_keys_Some_dom by (cases "sort_keys ps") blast+

lemma dom_business_value_weights:
  "dom business_value_weights = {''Critical'', ''High'', ''Medium'', ''Low'', ''Minimal''}"
  by (auto simp add: business_value_weights_def dom_def)

lemma calculate_bus_factor_in_table:
  assumes ne: "ps \<noteq> []"
    and tiers: "\<forall>p \<in> set ps. dev_business_value p \<in> dom business_value_weights"
  shows "\<exists>b. calculate_bus_factor ps = Inr b \<and> 1 \<le> b \<and> b \<le> length ps"
proof -
  from sort_keys_Some [OF tiers] obtain ks where ks: "sort_keys ps = Some ks"
    and len: "length ks = length ps" by blast
  let ?sorted = "map snd (sorted_reverse fst (zip ks ps))"
  have l: "length ?sorted = length ps" using len by (simp add: length_sorted_reverse)
  with ne have "?sorted \<noteq> []" by auto
  with bus_factor_loop_bounds [of 0 "length ps" ?sorted] l
  have "1 \<le> bus_factor_loop (length ps) ?sorted 0"
    and "bus_factor_loop (length ps) ?sorted 0 \<le> length ps" by auto
  with ne ks show ?thesis by (simp add: calculate_bus_factor_def Let_def)
qed

text \<open>
  A profile is built by \<open>_create_developer_profile\<close> alone, and its business value is
  what \<open>_assess_business_value\<close> returns: one of the five keys of the weight table.
\<close>

lemma assess_business_value_in_table:
  "assess_business_value author_stat commits
     \<in> {''Critical'', ''High'', ''Medium'', ''Low'', ''Minimal''}"
  by (simp add: assess_business_value_def)

text \<open>
  Claim C7: \<open>_calculate_bus_factor\<close> returns 0 for the empty profile list, and for
  every non-empty list of developer profiles, whose business values are among
  Critical, High, Medium, Low and Minimal, it returns an integer between 1 and the
  number of profiles.
\<close>

theorem calculate_bus_factor_range:
  assumes "\<forall>p \<in> set ps.
      dev_business_value p \<in> {''Critical'', ''High'', ''Medium'', ''Low'', ''Minimal''}"
  shows "calculate_bus_factor ([] :: 'd DeveloperProfile list) = Inr 0
   \<and> (ps \<noteq> [] \<longrightarrow> (\<exists>b. calculate_bus_factor ps = Inr b \<and> 1 \<le> b \<and> b \<le> length ps))"
proof -
  have empty: "calculate_bus_factor ([] :: 'd DeveloperProfile list) = Inr 0"
    by (simp add: calculate_bus_factor_def)
  from assms have tiers: "\<forall>p \<in> set ps. dev_business_value p \<in> dom business_value_weights"
    unfolding dom_business_value_weights .
  from empty calculate_bus_factor_in_table [OF _ tiers] show ?thesis by blast
qed

theorem calculate_bus_factor_range_witness:
  "map dev_business_value
       [profile_of ''Ada'' ''High'', profile_of ''Bob'' ''Low'', profile_of ''Cy'' ''Critical'']
     = [''High'', ''Low'', ''Critical'']
   \<and> calculate_bus_factor ([] :: nat DeveloperProfile list) = Inr 0
   \<and> calculate_bus_factor
       [profile_of ''Ada'' ''High'', profile_of ''Bob'' ''Low'', profile_of ''Cy'' ''Critical'']
     = Inr 3"
proof -
  have v: "map dev_business_value
       [profile_of ''Ada'' ''High'', profile_of ''Bob'' ''Low'', profile_of ''Cy'' ''Critical'']
     = [''High'', ''Low'', ''Critical'']"
    by (simp add: profile_of_def)
  have t: "\<forall>p \<in> set [profile_of ''Ada'' ''High'', profile_of ''Bob'' ''Low'',
        profile_of ''Cy'' ''Critical''].
      dev_business_value p \<in> {''Critical'', ''High'', ''Medium'', ''Low'', ''Minimal''}"
    by (simp add: profile_of_def)
  have r: "calculate_bus_factor
       [profile_of ''Ada'' ''High'', profile_of ''Bob'' ''Low'', profile_of ''Cy'' ''Critical'']
     = Inr 3" by code_simp
  from calculate_bus_factor_range [OF t, where 'd = nat] v r show ?thesis by blast
qed

subsection \<open>Knowledge concentration\<close>

text \<open>On every non-empty profile list the first pass of the loop already raises:
  \<open>KeyError\<close> for a business value outside the table, \<open>TypeError\<close> otherwise.\<close>

lemma concentration_loop_raises:
  "ps \<noteq> [] \<Longrightarrow> \<exists>e. concentration_loop ps total_weight (PyInt w) = Inl e"
  by (cases ps) (auto simp add: py_mul_int_str_def split: option.splits)

lemma calculate_knowledge_concentration_raises:
  "ps \<noteq> [] \<Longrightarrow> \<exists>e. calculate_knowledge_concentration ps = Inl e"
  using concentration_loop_raises [of ps 0 0]
  by (auto simp add: calculate_knowledge_concentration_def)

lemma analyze_team_dynamics_raises:
  "ps \<noteq> [] \<Longrightarrow> \<exists>e. analyze_team_dynamics recent ps commits = Inl e"
  using calculate_knowledge_concentration_raises [of ps]
  by (auto simp add: analyze_team_dynamics_def split: sum.splits)

text \<open>
  Claim C1 says that for a non-empty profile list \<open>analyze_team_dynamics\<close> returns team
  dynamics whose knowledge concentration is the fraction of Critical or High profiles.
  For the single profile below that fraction is 1, while
  \<open>_calculate_knowledge_concentration\<close> adds a string to the integer 0 and raises
  \<open>TypeError\<close>, and so does \<open>analyze_team_dynamics\<close>.
\<close>

theorem analyze_team_dynamics_type_error:
  "calculate_knowledge_concentration [profile_of ''Ada'' ''High''] = Inl TypeError
   \<and> analyze_team_dynamics (\<lambda>d. True) [profile_of ''Ada'' ''High''] three_commits = Inl TypeError
   \<and> primary_fraction [profile_of ''Ada'' ''High''] = 1"
proof -
  have 1: "calculate_knowledge_concentration [profile_of ''Ada'' ''High''] = Inl TypeError"
    by (simp add: calculate_knowledge_concentration_def profile_of_def business_value_weights_def
        py_mul_int_str_def)
  have 2: "calculate_bus_factor [profile_of ''Ada'' ''High''] = Inr 1"
    by code_simp
  have 3: "primary_fraction [profile_of ''Ada'' ''High''] = 1"
    by (simp add: primary_fraction_def profile_of_def)
  from 1 2 3 show ?thesis by (simp add: analyze_team_dynamics_def)
qed

subsection \<open>Business risks\<close>

text \<open>
  Claim C9: for all feature lists and commit lists the scope-creep score is 0.3 and the
  resource-constraint score is 0.4, each 0.0 when a list is empty, both below the
  trigger 0.6. So \<open>_identify_business_risks\<close> emits neither \<open>BUS_001\<close> nor \<open>BUS_003\<close>, and
  its result is empty or the one timeline risk \<open>BUS_002\<close>, whatever the timeline score.
\<close>

theorem identify_business_risks_only_timeline:
  "assess_scope_creep features commits = (if features = [] \<or> commits = [] then 0 else 3 / 10)
   \<and> assess_resource_constraints commits features
       = (if commits = [] \<or> features = [] then 0 else 4 / 10)
   \<and> assess_scope_creep features commits < 6 / 10
   \<and> assess_resource_constraints commits features < 6 / 10
   \<and> ''BUS_001'' \<notin> set (map risk_id (identify_business_risks timeline_risks now features commits))
   \<and> ''BUS_003'' \<notin> set (map risk_id (identify_business_risks timeline_risks now features commits))
   \<and> (identify_business_risks timeline_risks now features commits = []
        \<or> (\<exists>r. identify_business_risks timeline_risks now features commits = [r]
                \<and> risk_id r = ''BUS_002''))"
  by (simp add: identify_business_risks_def assess_scope_creep_def
      assess_resource_constraints_def Let_def)

theorem identify_business_risks_only_timeline_witness:
  "map risk_id (identify_business_risks assess_timeline_risks 0 [high_complexity_feature]
      three_commits) = [''BUS_002'']
   \<and> assess_scope_creep [high_complexity_feature] three_commits = 3 / 10
   \<and> assess_resource_constraints three_commits [high_complexity_feature] = 4 / 10
   \<and> identify_business_risks assess_timeline_risks 0 [small_high_risk_feature] three_commits = []"
proof -
  have 1: "map risk_id (identify_business_risks assess_timeline_risks 0 [high_complexity_feature]
      three_commits) = [''BUS_002'']" by code_simp
  have 2: "identify_business_risks assess_timeline_risks 0 [small_high_risk_feature] three_commits = []"
    by code_simp
  have 3: "assess_scope_creep [high_complexity_feature] three_commits = 3 / 10"
    "assess_resource_constraints three_commits [high_complexity_feature] = 4 / 10"
    by (simp_all add: assess_scope_creep_def assess_resource_constraints_def three_commits_def)
  show ?thesis
    using identify_business_risks_only_timeline [of "[high_complexity_feature]" three_commits
        assess_timeline_risks 0] 1 2 3
    by simp
qed

end
